theory Spec2Isabelle
  imports Complex_Main
begin

section \<open>JavaScript numbers\<close>

text \<open>
  A JavaScript number is a finite value, one of the two infinities, or NaN. Finite
  values are modelled by their exact rational value: the rounding of IEEE double
  arithmetic is not part of this model, and negative zero is identified with zero
  (none of the operations below tells them apart in a result the program stores).
\<close>

datatype jsnum = Fin rat | PInf | NInf | NaN

text \<open>The relational operators \<open><\<close>, \<open>>\<close>, \<open><=\<close>, \<open>>=\<close>: false as soon as one side is NaN.\<close>

fun num_lt :: "jsnum \<Rightarrow> jsnum \<Rightarrow> bool" where
  "num_lt NaN _ = False"
| "num_lt _ NaN = False"
| "num_lt (Fin a) (Fin b) = (a < b)"
| "num_lt PInf _ = False"
| "num_lt _ NInf = False"
| "num_lt _ PInf = True"
| "num_lt NInf _ = True"

definition num_gt :: "jsnum \<Rightarrow> jsnum \<Rightarrow> bool" where
  "num_gt a b = num_lt b a"

definition num_le :: "jsnum \<Rightarrow> jsnum \<Rightarrow> bool" where
  "num_le a b = (a \<noteq> NaN \<and> b \<noteq> NaN \<and> \<not> num_lt b a)"

text \<open>Addition: \<open>Infinity + -Infinity\<close> is NaN.\<close>

fun num_add :: "jsnum \<Rightarrow> jsnum \<Rightarrow> jsnum" where
  "num_add NaN _ = NaN"
| "num_add _ NaN = NaN"
| "num_add (Fin a) (Fin b) = Fin (a + b)"
| "num_add PInf NInf = NaN"
| "num_add NInf PInf = NaN"
| "num_add PInf _ = PInf"
| "num_add _ PInf = PInf"
| "num_add NInf _ = NInf"
| "num_add _ NInf = NInf"

fun num_neg :: "jsnum \<Rightarrow> jsnum" where
  "num_neg (Fin a) = Fin (- a)"
| "num_neg PInf = NInf"
| "num_neg NInf = PInf"
| "num_neg NaN = NaN"

definition num_sub :: "jsnum \<Rightarrow> jsnum \<Rightarrow> jsnum" where
  "num_sub a b = num_add a (num_neg b)"

text \<open>\<open>Math.max\<close> of two arguments: NaN if either is NaN.\<close>

fun Math_max :: "jsnum \<Rightarrow> jsnum \<Rightarrow> jsnum" where
  "Math_max NaN _ = NaN"
| "Math_max _ NaN = NaN"
| "Math_max (Fin a) (Fin b) = Fin (max a b)"
| "Math_max PInf _ = PInf"
| "Math_max _ PInf = PInf"
| "Math_max NInf b = b"
| "Math_max a NInf = a"

text \<open>\<open>Math.round\<close>: the nearest integer, a tie going towards \<open>+Infinity\<close>.\<close>

fun Math_round :: "jsnum \<Rightarrow> jsnum" where
  "Math_round (Fin a) = Fin (of_int \<lfloor>a + 1 / 2\<rfloor>)"
| "Math_round n = n"

fun Number_isFinite :: "jsnum \<Rightarrow> bool" where
  "Number_isFinite (Fin _) = True"
| "Number_isFinite _ = False"

text \<open>Truthiness of a number: only \<open>0\<close> and NaN are falsy. \<open>num_or0 n\<close> is \<open>n || 0\<close>.\<close>

definition num_truthy :: "jsnum \<Rightarrow> bool" where
  "num_truthy n = (n \<noteq> NaN \<and> n \<noteq> Fin 0)"

definition num_or0 :: "jsnum \<Rightarrow> jsnum" where
  "num_or0 n = (if num_truthy n then n else Fin 0)"

section \<open>JSON values and the coercions the program applies to them\<close>

text \<open>
  What \<open>JSON.parse\<close> returns: null, a boolean, a number (finite, or an infinity when
  the literal overflows, as \<open>1e999\<close> does), a string, an array or a plain object. An
  object is the list of its own properties, in their order, each key once. Strings are
  byte lists (UTF-8). A
  JavaScript value that may also be \<open>undefined\<close> is a \<open>json option\<close>, \<open>None\<close> being
  \<open>undefined\<close>.
\<close>

datatype json =
    JNull
  | JBool bool
  | JNum jsnum
  | JStr string
  | JArr "json list"
  | JObj "(string \<times> json) list"

datatype error = TypeError

text \<open>
  Reading a property whose name no built-in prototype defines (\<open>records\<close>, \<open>goal\<close>,
  \<open>mode\<close>, \<open>targetMinutes\<close>, \<open>date\<close>, \<open>subject\<close>, \<open>duration\<close>): on null it throws a
  TypeError, on an object it is the own property or \<open>undefined\<close>, on every other value
  it is \<open>undefined\<close>.
\<close>

fun get_prop :: "json \<Rightarrow> string \<Rightarrow> error + json option" where
  "get_prop JNull k = Inl TypeError"
| "get_prop (JObj kvs) k = Inr (map_of kvs k)"
| "get_prop v k = Inr None"

text \<open>\<open>v.k\<close> for a value that may be \<open>undefined\<close>, and the optional chain \<open>v?.k\<close>.\<close>

fun get_member :: "json option \<Rightarrow> string \<Rightarrow> error + json option" where
  "get_member None k = Inl TypeError"
| "get_member (Some v) k = get_prop v k"

fun opt_chain :: "json option \<Rightarrow> string \<Rightarrow> json option" where
  "opt_chain None k = None"
| "opt_chain (Some JNull) k = None"
| "opt_chain (Some (JObj kvs)) k = map_of kvs k"
| "opt_chain (Some v) k = None"

text \<open>
  The platform's conversions between numbers and strings are parameters of the model:
  \<open>StringToNumber\<close> is the numeric value of a string (\<open>Number(s)\<close>), \<open>NumberToString\<close>
  the decimal text of a number, and \<open>Date_parse_other\<close> what \<open>new Date(s)\<close> makes of a
  string that is not a calendar date in the ISO format (\<open>None\<close> being an invalid date),
  which the language leaves to the implementation. The time zone is given by its
  offset from UTC in milliseconds, which may change with time: \<open>LocalTZA_utc t\<close> is
  the offset in force at the instant \<open>t\<close>, and \<open>LocalTZA_local t\<close> the offset with which
  the local time \<open>t\<close> is read (for a local time that a clock change skips or repeats,
  the offset before the change).
\<close>

record platform =
  StringToNumber :: "string \<Rightarrow> jsnum"
  NumberToString :: "jsnum \<Rightarrow> string"
  Date_parse_other :: "string \<Rightarrow> int option"
  LocalTZA_utc :: "int \<Rightarrow> int"
  LocalTZA_local :: "int \<Rightarrow> int"

text \<open>
  \<open>ToString\<close> of a JSON value. An array is joined with commas (null elements give the
  empty string). A plain object is \<open>[object Object]\<close>, unless it has an own property
  \<open>toString\<close>: that property, coming from JSON, is not callable, the inherited
  \<open>valueOf\<close> returns the object itself, and the conversion throws a TypeError.
\<close>

fun ToString :: "platform \<Rightarrow> json \<Rightarrow> error + string"
and join :: "platform \<Rightarrow> json list \<Rightarrow> error + string"
where
  "ToString P JNull = Inr ''null''"
| "ToString P (JBool b) = Inr (if b then ''true'' else ''false'')"
| "ToString P (JNum n) = Inr (NumberToString P n)"
| "ToString P (JStr s) = Inr s"
| "ToString P (JArr xs) = join P xs"
| "ToString P (JObj kvs) =
     (if ''toString'' \<in> fst ` set kvs then Inl TypeError else Inr ''[object Object]'')"
| "join P [] = Inr []"
| "join P [x] = (if x = JNull then Inr [] else ToString P x)"
| "join P (x # y # ys) =
     (case (if x = JNull then Inr [] else ToString P x) of
        Inl e \<Rightarrow> Inl e
      | Inr s \<Rightarrow> (case join P (y # ys) of
                    Inl e \<Rightarrow> Inl e
                  | Inr t \<Rightarrow> Inr (s @ '','' @ t)))"

text \<open>\<open>ToString\<close> of a value that may be \<open>undefined\<close> (template literals, property keys).\<close>

fun ToString_opt :: "platform \<Rightarrow> json option \<Rightarrow> error + string" where
  "ToString_opt P None = Inr ''undefined''"
| "ToString_opt P (Some v) = ToString P v"

text \<open>\<open>Number(v)\<close>: arrays and objects are first converted to a string.\<close>

fun Number :: "platform \<Rightarrow> json option \<Rightarrow> error + jsnum" where
  "Number P None = Inr NaN"
| "Number P (Some JNull) = Inr (Fin 0)"
| "Number P (Some (JBool b)) = Inr (Fin (if b then 1 else 0))"
| "Number P (Some (JNum n)) = Inr n"
| "Number P (Some (JStr s)) = Inr (StringToNumber P s)"
| "Number P (Some v) =
     (case ToString P v of Inl e \<Rightarrow> Inl e | Inr s \<Rightarrow> Inr (StringToNumber P s))"

section \<open>The persisted store\<close>

text \<open>
  A stored string is represented by what \<open>JSON.parse\<close> makes of it: either it is a JSON
  text, given by the value it parses to, or it is any other string, on which
  \<open>JSON.parse\<close> throws a SyntaxError. The empty string is \<open>Other_text []\<close>.
  \<open>localStorage\<close> maps keys to stored strings; \<open>getItem\<close> of a missing key is null.
\<close>

datatype stored = JSON_text json | Other_text string

type_synonym localStorage = "string \<rightharpoonup> stored"

definition STORAGE_KEY :: string where
  "STORAGE_KEY = ''studyTrackerData''"

record goal =
  mode :: string
  targetMinutes :: jsnum

record snapshot =
  records :: "json list"
  goal :: goal

definition defaultData :: snapshot where
  "defaultData = \<lparr>records = [], goal = \<lparr>mode = ''weekly'', targetMinutes = Fin 300\<rparr>\<rparr>"

definition Array_isArray :: "json option \<Rightarrow> bool" where
  "Array_isArray v = (case v of Some (JArr _) \<Rightarrow> True | _ \<Rightarrow> False)"

text \<open>
  The object literal that \<open>loadData\<close> returns, evaluated on the parsed value in source
  order: \<open>parsed.records\<close>, the mode, then the two \<open>Number\<close> calls. Any throw leaves the
  \<open>try\<close> block.
\<close>

definition loadData_literal :: "platform \<Rightarrow> json \<Rightarrow> error + snapshot" where
  "loadData_literal P parsed =
     (case get_prop parsed ''records'' of
        Inl e \<Rightarrow> Inl e
      | Inr rs \<Rightarrow>
          let recs = (if Array_isArray rs then (case rs of Some (JArr xs) \<Rightarrow> xs | _ \<Rightarrow> []) else []);
              m = (if opt_chain (opt_chain (Some parsed) ''goal'') ''mode'' = Some (JStr ''weekly'')
                   then ''weekly'' else ''weekly'')
          in (case Number P (opt_chain (opt_chain (Some parsed) ''goal'') ''targetMinutes'') of
                Inl e \<Rightarrow> Inl e
              | Inr n \<Rightarrow>
                  if num_gt n (Fin 0)
                  then (case get_prop parsed ''goal'' of
                          Inl e \<Rightarrow> Inl e
                        | Inr g \<Rightarrow>
                            (case get_member g ''targetMinutes'' of
                               Inl e \<Rightarrow> Inl e
                             | Inr t \<Rightarrow>
                                 (case Number P t of
                                    Inl e \<Rightarrow> Inl e
                                  | Inr n' \<Rightarrow>
                                      Inr \<lparr>records = recs,
                                           goal = \<lparr>mode = m, targetMinutes = n'\<rparr>\<rparr>)))
                  else Inr \<lparr>records = recs, goal = \<lparr>mode = m, targetMinutes = Fin 300\<rparr>\<rparr>))"

text \<open>
  The two storage calls the program makes. Reading returns the storage unchanged
  beside the stored string (null, here \<open>None\<close>, for a missing key); writing is assumed
  to succeed (no quota error).
\<close>

definition localStorage_getItem :: "localStorage \<Rightarrow> string \<Rightarrow> stored option \<times> localStorage" where
  "localStorage_getItem ls k = (ls k, ls)"

definition localStorage_setItem :: "localStorage \<Rightarrow> string \<Rightarrow> stored \<Rightarrow> localStorage" where
  "localStorage_setItem ls k v = ls(k \<mapsto> v)"

text \<open>
  \<open>loadData\<close>: a missing key and the empty string are falsy and give the defaults; a
  string that does not parse, and any throw while the literal is built, end in the
  \<open>catch\<close>, which gives the defaults too. The result is the snapshot and the storage
  the call leaves behind.
\<close>

definition loadData :: "platform \<Rightarrow> localStorage \<Rightarrow> snapshot \<times> localStorage" where
  "loadData P ls =
     (let (raw, ls') = localStorage_getItem ls STORAGE_KEY
      in (case raw of
            None \<Rightarrow> (defaultData, ls')
          | Some (Other_text s) \<Rightarrow> (defaultData, ls')
          | Some (JSON_text parsed) \<Rightarrow>
              (case loadData_literal P parsed of
                 Inl e \<Rightarrow> (defaultData, ls')
               | Inr d \<Rightarrow> (d, ls'))))"

text \<open>
  \<open>JSON.stringify\<close> writes a number that is not finite as \<open>null\<close> and everything else
  so that it parses back to itself; \<open>JSON_reparse v\<close> is the value that the text
  \<open>JSON.stringify(v)\<close> parses to.
\<close>

fun JSON_reparse :: "json \<Rightarrow> json" where
  "JSON_reparse (JNum n) = (if Number_isFinite n then JNum n else JNull)"
| "JSON_reparse (JArr xs) = JArr (map JSON_reparse xs)"
| "JSON_reparse (JObj kvs) = JObj (map (\<lambda>(k, v). (k, JSON_reparse v)) kvs)"
| "JSON_reparse v = v"

definition JSON_stringify :: "json \<Rightarrow> stored" where
  "JSON_stringify v = JSON_text (JSON_reparse v)"

text \<open>The snapshot object as a JavaScript value, properties in the order of the literal.\<close>

definition snapshot_json :: "snapshot \<Rightarrow> json" where
  "snapshot_json d =
     JObj [(''records'', JArr (records d)),
           (''goal'', JObj [(''mode'', JStr (mode (goal d))),
                            (''targetMinutes'', JNum (targetMinutes (goal d)))])]"

definition saveData :: "localStorage \<Rightarrow> snapshot \<Rightarrow> localStorage" where
  "saveData ls d = localStorage_setItem ls STORAGE_KEY (JSON_stringify (snapshot_json d))"

section \<open>Dates\<close>

text \<open>
  A valid \<open>Date\<close> is its time value, an integer number of milliseconds since the
  epoch; an invalid one (time value NaN) is \<open>None\<close>. \<open>LocalTime\<close> and \<open>UTC\<close> convert
  between instants and local times with the offset in force, as the language's
  operations of these names do. Day numbers and calendar dates are converted as the
  language's \<open>MakeDay\<close>, \<open>YearFromTime\<close>, \<open>MonthFromTime\<close> and \<open>DateFromTime\<close> do, in
  the proleptic Gregorian calendar; months count from 1 here.
\<close>

definition msPerDay :: int where
  "msPerDay = 86400000"

definition Day :: "int \<Rightarrow> int" where
  "Day t = t div msPerDay"

definition LocalTime :: "platform \<Rightarrow> int \<Rightarrow> int" where
  "LocalTime P t = t + LocalTZA_utc P t"

definition UTC :: "platform \<Rightarrow> int \<Rightarrow> int" where
  "UTC P t = t - LocalTZA_local P t"

definition days_from_civil :: "int \<Rightarrow> int \<Rightarrow> int \<Rightarrow> int" where
  "days_from_civil y m d =
     (let y' = (if m \<le> 2 then y - 1 else y);
          era = y' div 400;
          yoe = y' - era * 400;
          mp = (if 2 < m then m - 3 else m + 9);
          doy = (153 * mp + 2) div 5 + d - 1;
          doe = yoe * 365 + yoe div 4 - yoe div 100 + doy
      in era * 146097 + doe - 719468)"

definition civil_from_days :: "int \<Rightarrow> int \<times> int \<times> int" where
  "civil_from_days z =
     (let z' = z + 719468;
          era = z' div 146097;
          doe = z' - era * 146097;
          yoe = (doe - doe div 1460 + doe div 36524 - doe div 146096) div 365;
          doy = doe - (365 * yoe + yoe div 4 - yoe div 100);
          mp = (5 * doy + 2) div 153;
          d = doy - (153 * mp + 2) div 5 + 1;
          m = (if mp < 10 then mp + 3 else mp - 9);
          y = yoe + era * 400
      in (if m \<le> 2 then y + 1 else y, m, d))"

definition is_leap :: "int \<Rightarrow> bool" where
  "is_leap y = (y mod 4 = 0 \<and> (y mod 100 \<noteq> 0 \<or> y mod 400 = 0))"

definition days_in_month :: "int \<Rightarrow> int \<Rightarrow> int" where
  "days_in_month y m =
     (if m = 2 then (if is_leap y then 29 else 28)
      else if m = 4 \<or> m = 6 \<or> m = 9 \<or> m = 11 then 30 else 31)"

text \<open>Decimal digits, and the text \<open>YYYY-MM-DD\<close> of a calendar date that exists.\<close>

definition digit :: "char \<Rightarrow> int option" where
  "digit c = (let n = (of_char c :: nat) in if 48 \<le> n \<and> n \<le> 57 then Some (int n - 48) else None)"

fun digits_value :: "int \<Rightarrow> string \<Rightarrow> int option" where
  "digits_value acc [] = Some acc"
| "digits_value acc (c # cs) =
     (case digit c of None \<Rightarrow> None | Some n \<Rightarrow> digits_value (10 * acc + n) cs)"

fun iso_date :: "string \<Rightarrow> (int \<times> int \<times> int) option" where
  "iso_date [y1, y2, y3, y4, s1, m1, m2, s2, d1, d2] =
     (if s1 = CHR ''-'' \<and> s2 = CHR ''-'' then
        (case digits_value 0 [y1, y2, y3, y4] of
           None \<Rightarrow> None
         | Some y \<Rightarrow>
             (case digits_value 0 [m1, m2] of
                None \<Rightarrow> None
              | Some m \<Rightarrow>
                  (case digits_value 0 [d1, d2] of
                     None \<Rightarrow> None
                   | Some d \<Rightarrow>
                       if 1 \<le> m \<and> m \<le> 12 \<and> 1 \<le> d \<and> d \<le> days_in_month y m
                       then Some (y, m, d) else None)))
      else None)"
| "iso_date _ = None"

text \<open>
  \<open>new Date(s)\<close> for a string: a date-time \<open>YYYY-MM-DDT00:00:00\<close> without an offset is
  local midnight of that calendar date; every other string is left to the platform.
\<close>

definition Date_parse :: "platform \<Rightarrow> string \<Rightarrow> int option" where
  "Date_parse P s =
     (if length s = 19 \<and> drop 10 s = ''T00:00:00'' then
        (case iso_date (take 10 s) of
           Some (y, m, d) \<Rightarrow> Some (UTC P (days_from_civil y m d * msPerDay))
         | None \<Rightarrow> Date_parse_other P s)
      else Date_parse_other P s)"

text \<open>
  \<open>setHours(0, 0, 0, 0)\<close> sets the local time of day to 00:00 and converts back, and
  \<open>d.setDate(d.getDate() + k)\<close> moves the local time by \<open>k\<close> calendar days, keeping
  the local time of day, and converts back with the offset of the day it arrives at.
  Where a clock change skips local midnight, the first lands an hour later.
\<close>

definition setHours0 :: "platform \<Rightarrow> int \<Rightarrow> int" where
  "setHours0 P t = UTC P (Day (LocalTime P t) * msPerDay)"

definition setDate_getDate_plus :: "platform \<Rightarrow> int \<Rightarrow> int \<Rightarrow> int" where
  "setDate_getDate_plus P t k = UTC P (LocalTime P t + k * msPerDay)"

text \<open>Comparing a date that may be invalid with a valid one: \<open>>=\<close> and \<open><=\<close>.\<close>

definition date_ge :: "int option \<Rightarrow> int \<Rightarrow> bool" where
  "date_ge a b = (case a of None \<Rightarrow> False | Some t \<Rightarrow> b \<le> t)"

definition date_le :: "int option \<Rightarrow> int \<Rightarrow> bool" where
  "date_le a b = (case a of None \<Rightarrow> False | Some t \<Rightarrow> t \<le> b)"

text \<open>\<open>String(n)\<close> for an integer, and \<open>padStart(2, "0")\<close>.\<close>

fun nat_to_string :: "nat \<Rightarrow> string" where
  "nat_to_string n =
     (if n < 10 then [char_of (48 + n)]
      else nat_to_string (n div 10) @ [char_of (48 + n mod 10)])"

declare nat_to_string.simps [simp del]

definition int_to_string :: "int \<Rightarrow> string" where
  "int_to_string i = (if i < 0 then CHR ''-'' # nat_to_string (nat (- i)) else nat_to_string (nat i))"

definition padStart2 :: "string \<Rightarrow> string" where
  "padStart2 s = replicate (2 - length s) CHR ''0'' @ s"

definition formatDate :: "platform \<Rightarrow> int \<Rightarrow> string" where
  "formatDate P t =
     (let (y, m, d) = civil_from_days (Day (LocalTime P t))
      in int_to_string y @ ''-'' @ padStart2 (int_to_string m) @ ''-'' @ padStart2 (int_to_string d))"

section \<open>Aggregation\<close>

text \<open>\<open>Array.prototype.filter\<close> with a callback that may throw: the first throw ends it.\<close>

fun Array_filter :: "('a \<Rightarrow> error + bool) \<Rightarrow> 'a list \<Rightarrow> error + 'a list" where
  "Array_filter f [] = Inr []"
| "Array_filter f (x # xs) =
     (case f x of
        Inl e \<Rightarrow> Inl e
      | Inr b \<Rightarrow> (case Array_filter f xs of
                    Inl e \<Rightarrow> Inl e
                  | Inr ys \<Rightarrow> Inr (if b then x # ys else ys)))"

text \<open>The window's first instant, and the callback of \<open>filterLast7Days\<close>.\<close>

definition window_start :: "platform \<Rightarrow> int \<Rightarrow> int" where
  "window_start P now = setDate_getDate_plus P (setHours0 P now) (- 6)"

definition in_last7Days :: "platform \<Rightarrow> int \<Rightarrow> json \<Rightarrow> error + bool" where
  "in_last7Days P now record =
     (case get_prop record ''date'' of
        Inl e \<Rightarrow> Inl e
      | Inr dt \<Rightarrow>
          (case ToString_opt P dt of
             Inl e \<Rightarrow> Inl e
           | Inr s \<Rightarrow>
               let recDate = Date_parse P (s @ ''T00:00:00'')
               in Inr (date_ge recDate (window_start P now) \<and> date_le recDate now)))"

definition filterLast7Days :: "platform \<Rightarrow> int \<Rightarrow> json list \<Rightarrow> error + json list" where
  "filterLast7Days P now recs = Array_filter (in_last7Days P now) recs"

text \<open>
  The subjects, as UTF-8 bytes: kokugo (Japanese), sugaku (mathematics), eigo
  (English), rika (science), shakai (social studies).
\<close>

definition kokugo :: string where
  "kokugo = [CHR 0xE5, CHR 0x9B, CHR 0xBD, CHR 0xE8, CHR 0xAA, CHR 0x9E]"

definition sugaku :: string where
  "sugaku = [CHR 0xE6, CHR 0x95, CHR 0xB0, CHR 0xE5, CHR 0xAD, CHR 0xA6]"

definition eigo :: string where
  "eigo = [CHR 0xE8, CHR 0x8B, CHR 0xB1, CHR 0xE8, CHR 0xAA, CHR 0x9E]"

definition rika :: string where
  "rika = [CHR 0xE7, CHR 0x90, CHR 0x86, CHR 0xE7, CHR 0xA7, CHR 0x91]"

definition shakai :: string where
  "shakai = [CHR 0xE7, CHR 0xA4, CHR 0xBE, CHR 0xE4, CHR 0xBC, CHR 0x9A]"

definition SUBJECTS :: "string list" where
  "SUBJECTS = [kokugo, sugaku, eigo, rika, shakai]"

text \<open>
  The \<open>totals\<close> object: its own properties in insertion order. A value is a number, or
  a string whose text the platform decides (a built-in function's source followed by
  digits). The object inherits from \<open>Object.prototype\<close>, so that reading one of the
  names below gives a value that is not \<open>undefined\<close> although the object has no such
  own property.
\<close>

datatype tval = TNum jsnum | TText

type_synonym totals = "(string \<times> tval) list"

definition Object_prototype_names :: "string list" where
  "Object_prototype_names =
     [''constructor'', ''hasOwnProperty'', ''isPrototypeOf'', ''propertyIsEnumerable'',
      ''toLocaleString'', ''toString'', ''valueOf'', ''__proto__'',
      ''__defineGetter__'', ''__defineSetter__'', ''__lookupGetter__'', ''__lookupSetter__'']"

text \<open>Writing a property: in place when it is there, appended otherwise.\<close>

fun put :: "string \<Rightarrow> tval \<Rightarrow> totals \<Rightarrow> totals" where
  "put k v [] = [(k, v)]"
| "put k v (p # ps) = (if fst p = k then (k, v) # ps else p # put k v ps)"

text \<open>\<open>Number(record.duration) || 0\<close>.\<close>

definition duration_or0 :: "platform \<Rightarrow> json \<Rightarrow> error + jsnum" where
  "duration_or0 P record =
     (case get_prop record ''duration'' of
        Inl e \<Rightarrow> Inl e
      | Inr d \<Rightarrow> (case Number P d of Inl e \<Rightarrow> Inl e | Inr n \<Rightarrow> Inr (num_or0 n)))"

text \<open>
  The body of the \<open>forEach\<close> in \<open>calcSubjectTotals\<close>. The test
  \<open>totals[record.subject] !== undefined\<close> holds for an own property and for an
  inherited one. \<open>+=\<close> on a number adds; on a string or an inherited function it
  concatenates and stores a string, except that assigning a string to \<open>__proto__\<close>
  is ignored by its setter.
\<close>

definition add_record :: "platform \<Rightarrow> totals \<Rightarrow> json \<Rightarrow> error + totals" where
  "add_record P totals record =
     (case get_prop record ''subject'' of
        Inl e \<Rightarrow> Inl e
      | Inr sj \<Rightarrow>
          (case ToString_opt P sj of
             Inl e \<Rightarrow> Inl e
           | Inr k \<Rightarrow>
               (case map_of totals k of
                  Some (TNum a) \<Rightarrow>
                    (case duration_or0 P record of
                       Inl e \<Rightarrow> Inl e
                     | Inr n \<Rightarrow> Inr (put k (TNum (num_add a n)) totals))
                | Some TText \<Rightarrow>
                    (case duration_or0 P record of
                       Inl e \<Rightarrow> Inl e
                     | Inr n \<Rightarrow> Inr (put k TText totals))
                | None \<Rightarrow>
                    if k \<in> set Object_prototype_names then
                      (case duration_or0 P record of
                         Inl e \<Rightarrow> Inl e
                       | Inr n \<Rightarrow> Inr (if k = ''__proto__'' then totals else put k TText totals))
                    else Inr totals)))"

fun forEach_add :: "platform \<Rightarrow> totals \<Rightarrow> json list \<Rightarrow> error + totals" where
  "forEach_add P totals [] = Inr totals"
| "forEach_add P totals (r # rs) =
     (case add_record P totals r of
        Inl e \<Rightarrow> Inl e
      | Inr totals' \<Rightarrow> forEach_add P totals' rs)"

definition calcSubjectTotals :: "platform \<Rightarrow> json list \<Rightarrow> error + totals" where
  "calcSubjectTotals P recs = forEach_add P (map (\<lambda>subject. (subject, TNum (Fin 0))) SUBJECTS) recs"

text \<open>The \<open>reduce\<close> of \<open>updateProgressView\<close>: the sum of the durations, from 0.\<close>

fun reduce_sum :: "platform \<Rightarrow> jsnum \<Rightarrow> json list \<Rightarrow> error + jsnum" where
  "reduce_sum P acc [] = Inr acc"
| "reduce_sum P acc (r # rs) =
     (case duration_or0 P r of
        Inl e \<Rightarrow> Inl e
      | Inr n \<Rightarrow> reduce_sum P (num_add acc n) rs)"

definition remaining :: "jsnum \<Rightarrow> jsnum \<Rightarrow> jsnum" where
  "remaining target weeklyTotal = Math_max (Fin 0) (num_sub target weeklyTotal)"

section \<open>The page: session, messages and event handlers\<close>

text \<open>
  \<open>currentSession\<close>: the selected subject (null and \<open>undefined\<close> are \<open>None\<close>) and the
  start time (null is \<open>None\<close>). A \<open>Date\<close> is always truthy; a subject is falsy when it
  is null, \<open>undefined\<close> or the empty string.
\<close>

record session =
  subject :: "string option"
  startAt :: "int option"

definition falsy_subject :: "string option \<Rightarrow> bool" where
  "falsy_subject s = (s = None \<or> s = Some [])"

text \<open>
  The texts written to the status line and to the goal message, by their meaning:
  a subject was selected; select a subject first; the start time was recorded; stop
  only after a start; a subject's minutes were recorded; enter a number that is 1 or
  more; the goal was saved.
\<close>

datatype status = Status_empty
  | Subject_selected "string option"
  | Select_subject_first
  | Start_recorded int
  | Start_before_stop
  | Recorded "string option" jsnum

datatype goal_message = Goal_message_empty
  | Enter_one_or_more
  | Goal_saved jsnum

text \<open>What the progress screen shows: the two numbers and the chart's five bars.\<close>

record progress_view =
  weeklyTotal :: jsnum
  remainingMinutes :: jsnum
  chart_values :: "tval option list"

record page =
  storage :: localStorage
  currentSession :: session
  recordStatus :: status
  goalMessage :: goal_message
  startBtn_disabled :: bool
  endBtn_disabled :: bool
  progress :: "progress_view option"

text \<open>
  An event handler ends with the page it leaves and the exception that escaped it, if
  one did. \<open>updateProgressView\<close> computes everything before it writes to the page, so a
  throw leaves the screen as it was.
\<close>

definition updateProgressView :: "platform \<Rightarrow> int \<Rightarrow> page \<Rightarrow> page \<times> error option" where
  "updateProgressView P now pg =
     (let (data, ls) = loadData P (storage pg);
          pg1 = pg\<lparr>storage := ls\<rparr>
      in (case filterLast7Days P now (records data) of
            Inl e \<Rightarrow> (pg1, Some e)
          | Inr recentRecords \<Rightarrow>
              (case reduce_sum P (Fin 0) recentRecords of
                 Inl e \<Rightarrow> (pg1, Some e)
               | Inr wtotal \<Rightarrow>
                   (case calcSubjectTotals P recentRecords of
                      Inl e \<Rightarrow> (pg1, Some e)
                    | Inr subjectTotals \<Rightarrow>
                        (pg1\<lparr>progress := Some
                            \<lparr>weeklyTotal = wtotal,
                             remainingMinutes = remaining (targetMinutes (goal data)) wtotal,
                             chart_values = map (map_of subjectTotals) SUBJECTS\<rparr>\<rparr>,
                         None)))))"

text \<open>
  The click on the goal's save button. \<open>value\<close> is \<open>Number(input.value)\<close>; the second
  definition is the handler itself, on the text of the input field.
\<close>

definition saveGoal_value :: "platform \<Rightarrow> jsnum \<Rightarrow> int \<Rightarrow> page \<Rightarrow> page \<times> error option" where
  "saveGoal_value P v now pg =
     (if \<not> Number_isFinite v \<or> num_le v (Fin 0) then
        (pg\<lparr>goalMessage := Enter_one_or_more\<rparr>, None)
      else
        let (data, ls) = loadData P (storage pg);
            data' = data\<lparr>goal := \<lparr>mode = ''weekly'', targetMinutes = Math_round v\<rparr>\<rparr>;
            ls' = saveData ls data'
        in updateProgressView P now
             (pg\<lparr>storage := ls', goalMessage := Goal_saved (Math_round v)\<rparr>))"

definition saveGoal_click :: "platform \<Rightarrow> string \<Rightarrow> int \<Rightarrow> page \<Rightarrow> page \<times> error option" where
  "saveGoal_click P input now pg = saveGoal_value P (StringToNumber P input) now pg"

text \<open>The click on a subject button; the argument is the button's \<open>dataset.subject\<close>.\<close>

definition subject_click :: "string option \<Rightarrow> page \<Rightarrow> page" where
  "subject_click s pg =
     pg\<lparr>currentSession := (currentSession pg)\<lparr>subject := s\<rparr>,
        recordStatus := Subject_selected s\<rparr>"

definition start_click :: "int \<Rightarrow> page \<Rightarrow> page" where
  "start_click now pg =
     (if falsy_subject (subject (currentSession pg)) then
        pg\<lparr>recordStatus := Select_subject_first\<rparr>
      else
        pg\<lparr>currentSession := (currentSession pg)\<lparr>startAt := Some now\<rparr>,
           startBtn_disabled := True,
           endBtn_disabled := False,
           recordStatus := Start_recorded now\<rparr>)"

text \<open>The session's subject as a value (a string wherever the handler below uses it).\<close>

definition subject_json :: "string option \<Rightarrow> json" where
  "subject_json s = (case s of None \<Rightarrow> JNull | Some x \<Rightarrow> JStr x)"

text \<open>Division of a number by a positive finite constant.\<close>

fun num_div_by :: "jsnum \<Rightarrow> rat \<Rightarrow> jsnum" where
  "num_div_by (Fin a) c = Fin (a / c)"
| "num_div_by n c = n"

text \<open>
  The click on the end button. \<open>endAt\<close> is the clock when the handler starts, \<open>now\<close>
  the clock when the progress screen is refreshed at its end.
\<close>

definition end_click :: "platform \<Rightarrow> int \<Rightarrow> int \<Rightarrow> page \<Rightarrow> page \<times> error option" where
  "end_click P endAt now pg =
     (case startAt (currentSession pg) of
        None \<Rightarrow> (pg\<lparr>recordStatus := Start_before_stop\<rparr>, None)
      | Some t0 \<Rightarrow>
          if falsy_subject (subject (currentSession pg)) then
            (pg\<lparr>recordStatus := Start_before_stop\<rparr>, None)
          else
            let durationMinutes =
                  Math_max (Fin 1)
                    (Math_round (num_div_by (num_sub (Fin (of_int endAt)) (Fin (of_int t0))) 60000));
                (data, ls) = loadData P (storage pg);
                data' = data\<lparr>records := records data @
                          [JObj [(''date'', JStr (formatDate P endAt)),
                                 (''subject'', subject_json (subject (currentSession pg))),
                                 (''duration'', JNum durationMinutes)]]\<rparr>;
                ls' = saveData ls data'
            in updateProgressView P now
                 (pg\<lparr>storage := ls',
                     recordStatus := Recorded (subject (currentSession pg)) durationMinutes,
                     currentSession := (currentSession pg)\<lparr>startAt := None\<rparr>,
                     startBtn_disabled := False,
                     endBtn_disabled := True\<rparr>))"

section \<open>The aggregation as the specification words it\<close>

text \<open>
  A record of the data model: an object whose date and subject are strings and whose
  duration is a number.
\<close>

fun is_Record :: "json \<Rightarrow> bool" where
  "is_Record (JObj kvs) =
     (case map_of kvs ''date'' of
        Some (JStr d) \<Rightarrow>
          (case map_of kvs ''subject'' of
             Some (JStr s) \<Rightarrow>
               (case map_of kvs ''duration'' of Some (JNum n) \<Rightarrow> True | _ \<Rightarrow> False)
           | _ \<Rightarrow> False)
      | _ \<Rightarrow> False)"
| "is_Record v = False"

text \<open>
  The specification's 7-day filter: a record's date, read as local midnight, lies
  between the local midnight of today minus six days and now, both ends included.
\<close>

definition local_midnight :: "platform \<Rightarrow> int \<Rightarrow> int" where
  "local_midnight P t = UTC P (Day (LocalTime P t) * msPerDay)"

definition date_as_local_midnight :: "platform \<Rightarrow> json \<Rightarrow> int option" where
  "date_as_local_midnight P r =
     (case r of
        JObj kvs \<Rightarrow>
          (case map_of kvs ''date'' of
             Some (JStr s) \<Rightarrow> Date_parse P (s @ ''T00:00:00'')
           | _ \<Rightarrow> None)
      | _ \<Rightarrow> None)"

definition last7Days_spec :: "platform \<Rightarrow> int \<Rightarrow> json list \<Rightarrow> json list" where
  "last7Days_spec P now recs =
     filter (\<lambda>r. case date_as_local_midnight P r of
                   None \<Rightarrow> False
                 | Some t \<Rightarrow> local_midnight P now - 6 * msPerDay \<le> t \<and> t \<le> now) recs"

text \<open>
  A zone whose offset is \<open>c\<close> around the window that ends at \<open>now\<close>: at \<open>now\<close>, at the
  local midnight of today and at the local midnight six days before. \<open>offset_on\<close> says
  the same of the local midnight of a day given by its number.
\<close>

definition steady_offset :: "platform \<Rightarrow> int \<Rightarrow> int \<Rightarrow> bool" where
  "steady_offset P c now =
     (LocalTZA_utc P now = c
      \<and> LocalTZA_local P (Day (now + c) * msPerDay) = c
      \<and> LocalTZA_utc P (Day (now + c) * msPerDay - c) = c
      \<and> LocalTZA_local P ((Day (now + c) - 6) * msPerDay) = c)"

definition offset_on :: "platform \<Rightarrow> int \<Rightarrow> int \<Rightarrow> bool" where
  "offset_on P c day = (LocalTZA_local P (day * msPerDay) = c)"

text \<open>
  The specification's totals: every subject of the closed set, with the sum of the
  durations of the records of that subject, a duration that is not a number or is 0
  counting as 0.
\<close>

definition subject_of :: "json \<Rightarrow> string option" where
  "subject_of r =
     (case r of
        JObj kvs \<Rightarrow> (case map_of kvs ''subject'' of Some (JStr s) \<Rightarrow> Some s | _ \<Rightarrow> None)
      | _ \<Rightarrow> None)"

definition duration_of :: "json \<Rightarrow> jsnum" where
  "duration_of r =
     (case r of
        JObj kvs \<Rightarrow> (case map_of kvs ''duration'' of Some (JNum n) \<Rightarrow> n | _ \<Rightarrow> NaN)
      | _ \<Rightarrow> NaN)"

definition subject_sum :: "string \<Rightarrow> json list \<Rightarrow> jsnum" where
  "subject_sum s recs =
     foldl num_add (Fin 0) (map (\<lambda>r. num_or0 (duration_of r)) (filter (\<lambda>r. subject_of r = Some s) recs))"

definition subjectTotals_spec :: "json list \<Rightarrow> totals" where
  "subjectTotals_spec recs = map (\<lambda>s. (s, TNum (subject_sum s recs))) SUBJECTS"

text \<open>A record with the given date, subject and minutes.\<close>

definition Record :: "string \<Rightarrow> string \<Rightarrow> rat \<Rightarrow> json" where
  "Record d s n = JObj [(''date'', JStr d), (''subject'', JStr s), (''duration'', JNum (Fin n))]"

section \<open>Example inputs\<close>

text \<open>
  A platform for the examples: local time is nine hours ahead of UTC (Japan), the
  numeric value of a string is right for the empty string and for unsigned decimal
  integers, the text of a number is right for integers, and no other date text parses.
\<close>

definition example_platform :: platform where
  "example_platform =
     \<lparr>StringToNumber = (\<lambda>s. if s = [] then Fin 0
                              else (case digits_value 0 s of Some n \<Rightarrow> Fin (of_int n) | None \<Rightarrow> NaN)),
      NumberToString = (\<lambda>n. case n of Fin q \<Rightarrow> int_to_string \<lfloor>q\<rfloor> | _ \<Rightarrow> []),
      Date_parse_other = (\<lambda>s. None),
      LocalTZA_utc = (\<lambda>t. 32400000),
      LocalTZA_local = (\<lambda>t. 32400000)\<rparr>"

text \<open>
  The same platform in a zone with a clock change: Cuba in March 2024, five hours
  behind UTC until local midnight of 2024-03-10 (05:00 UTC), four hours behind from
  then on. The local hour from 00:00 to 01:00 of that day is skipped and read with the
  offset before the change.
\<close>

definition clock_change_platform :: platform where
  "clock_change_platform =
     example_platform
       \<lparr>LocalTZA_utc := (\<lambda>t. if t < 1710046800000 then - 18000000 else - 14400000),
        LocalTZA_local := (\<lambda>t. if t < 1710032400000 then - 18000000 else - 14400000)\<rparr>"

text \<open>The storage after the first start of the page, which saves the defaults.\<close>

definition initial_storage :: localStorage where
  "initial_storage = saveData Map.empty defaultData"

text \<open>
  A page on which mathematics was selected and the timer started at noon of
  2024-03-10, local time.
\<close>

definition running_page :: page where
  "running_page =
     \<lparr>storage = initial_storage,
      currentSession = \<lparr>subject = Some sugaku, startAt = Some 1710039600000\<rparr>,
      recordStatus = Start_recorded 1710039600000,
      goalMessage = Goal_message_empty,
      startBtn_disabled = True,
      endBtn_disabled = False,
      progress = None\<rparr>"

section \<open>Frame lemmas\<close>

lemma loadData_snd: "snd (loadData P ls) = ls"
  by (simp add: loadData_def localStorage_getItem_def split: option.splits stored.splits sum.splits)

lemma updateProgressView_storage: "storage (fst (updateProgressView P now pg)) = storage pg"
  using loadData_snd [of P "storage pg"]
  by (auto simp: updateProgressView_def Let_def split: prod.splits sum.splits)

lemma updateProgressView_session:
  "currentSession (fst (updateProgressView P now pg)) = currentSession pg"
  by (auto simp: updateProgressView_def Let_def split: prod.splits sum.splits)

lemma updateProgressView_controls:
  "recordStatus (fst (updateProgressView P now pg)) = recordStatus pg"
  "goalMessage (fst (updateProgressView P now pg)) = goalMessage pg"
  "startBtn_disabled (fst (updateProgressView P now pg)) = startBtn_disabled pg"
  "endBtn_disabled (fst (updateProgressView P now pg)) = endBtn_disabled pg"
  by (auto simp: updateProgressView_def Let_def split: prod.splits sum.splits)

lemma loadData_fst_snd: "loadData P ls = (fst (loadData P ls), ls)"
  using loadData_snd [of P ls] by (metis prod.collapse)

lemma duration_eq:
  "Math_max (Fin 1) (Math_round (num_div_by (num_sub (Fin (of_int e)) (Fin (of_int s))) 60000))
   = Fin (of_int (max 1 (round (of_int (e - s) / (60000::rat)))))"
  by (simp add: num_sub_def round_def max_def)

section \<open>The session timer\<close>

text \<open>
  C1, as the code has it. After a stop that succeeds (a start time is recorded and the
  subject is truthy) the start time is null again, the start button is enabled and the
  end button disabled, and the subject is the one that was selected: the handler never
  assigns to it, so the session is back in the state "subject selected", not "idle".
\<close>

theorem end_click_clears_start_only:
  assumes "startAt (currentSession pg) = Some t0"
    and "\<not> falsy_subject (subject (currentSession pg))"
  shows "currentSession (fst (end_click P endAt now pg))
           = \<lparr>subject = subject (currentSession pg), startAt = None\<rparr>
         \<and> startBtn_disabled (fst (end_click P endAt now pg)) = False
         \<and> endBtn_disabled (fst (end_click P endAt now pg)) = True"
  using assms
  by (simp add: end_click_def Let_def updateProgressView_session updateProgressView_controls
      split: prod.splits)

text \<open>The same on the example page, stopped thirty minutes after the start.\<close>

theorem end_click_clears_start_only_witness:
  "startAt (currentSession running_page) = Some 1710039600000
   \<and> \<not> falsy_subject (subject (currentSession running_page))
   \<and> currentSession (fst (end_click example_platform 1710041400000 1710041400000 running_page))
       = \<lparr>subject = Some sugaku, startAt = None\<rparr>
   \<and> startBtn_disabled (fst (end_click example_platform 1710041400000 1710041400000 running_page)) = False
   \<and> endBtn_disabled (fst (end_click example_platform 1710041400000 1710041400000 running_page)) = True"
  using end_click_clears_start_only [of running_page 1710039600000 example_platform 1710041400000 1710041400000]
  by (simp add: running_page_def falsy_subject_def sugaku_def)

text \<open>
  C1 as stated fails: on the example page the session after the stop is not
  \<open>{null, null}\<close>, the subject is still mathematics.
\<close>

theorem end_click_subject_cleared_counterexample:
  "currentSession (fst (end_click example_platform 1710041400000 1710041400000 running_page))
     \<noteq> \<lparr>subject = None, startAt = None\<rparr>"
  by (simp add: end_click_def Let_def updateProgressView_session running_page_def
      falsy_subject_def sugaku_def split: prod.splits)

text \<open>
  C5. A stop that succeeds appends one record to the snapshot it has just loaded and
  saves it; the record's duration, which the status line shows too, is
  \<open>max(1, round((endAt - startAt) / 60000))\<close>, \<open>round\<close> being rounding to the nearest
  integer with a tie going up. When no time has passed the duration is 1.
\<close>

theorem end_click_duration:
  assumes "startAt (currentSession pg) = Some t0"
    and "\<not> falsy_subject (subject (currentSession pg))"
  shows "storage (fst (end_click P endAt now pg))
           = saveData (storage pg)
               ((fst (loadData P (storage pg)))
                  \<lparr>records := records (fst (loadData P (storage pg))) @
                     [JObj [(''date'', JStr (formatDate P endAt)),
                            (''subject'', subject_json (subject (currentSession pg))),
                            (''duration'',
                               JNum (Fin (of_int (max 1 (round (of_int (endAt - t0) / (60000::rat)))))))]]\<rparr>)
         \<and> recordStatus (fst (end_click P endAt now pg))
             = Recorded (subject (currentSession pg))
                 (Fin (of_int (max 1 (round (of_int (endAt - t0) / (60000::rat))))))
         \<and> recordStatus (fst (end_click P t0 now pg)) = Recorded (subject (currentSession pg)) (Fin 1)"
proof -
  obtain d where d: "loadData P (storage pg) = (d, storage pg)"
    using loadData_fst_snd by blast
  have r0: "round (of_int (t0 - t0) / (60000::rat)) = 0"
    by simp
  show ?thesis
    using assms d r0
    by (simp add: end_click_def Let_def duration_eq updateProgressView_storage
        updateProgressView_controls del: of_int_diff)
qed

text \<open>The example page stopped after thirty minutes, and stopped at once.\<close>

theorem end_click_duration_witness:
  "startAt (currentSession running_page) = Some 1710039600000
   \<and> \<not> falsy_subject (subject (currentSession running_page))
   \<and> recordStatus (fst (end_click example_platform 1710041400000 1710041400000 running_page))
       = Recorded (Some sugaku) (Fin 30)
   \<and> recordStatus (fst (end_click example_platform 1710039600000 1710041400000 running_page))
       = Recorded (Some sugaku) (Fin 1)"
  using end_click_duration [of running_page 1710039600000 example_platform 1710041400000 1710041400000]
  by (simp add: running_page_def falsy_subject_def sugaku_def)

section \<open>The persisted store\<close>

text \<open>
  C10. \<open>loadData\<close> leaves the storage as it found it, whatever is stored: a missing
  key, a string that does not parse, or any JSON text. The defaults it falls back to
  are only in the snapshot it returns.
\<close>

theorem loadData_leaves_storage: "snd (loadData P ls) = ls"
  by (simp add: loadData_def localStorage_getItem_def split: option.splits stored.splits sum.splits)

text \<open>
  What \<open>loadData\<close> makes of a JSON text that is not \<open>null\<close>: each field of the result
  is decided by the stored field of the same name, unless the conversion of the stored
  \<open>targetMinutes\<close> to a number throws.
\<close>

lemma get_prop_opt_chain: "v \<noteq> JNull \<Longrightarrow> get_prop v k = Inr (opt_chain (Some v) k)"
  by (cases v) simp_all

lemma get_member_opt_chain:
  assumes "Number P (opt_chain g k) = Inr n" and "num_gt n (Fin 0)"
  shows "get_member g k = Inr (opt_chain g k)"
proof (cases g)
  case None
  with assms show ?thesis by (simp add: num_gt_def)
next
  case (Some v)
  with assms show ?thesis by (cases v) (simp_all add: num_gt_def)
qed

lemma loadData_literal_eq:
  assumes "parsed \<noteq> JNull"
  shows "loadData_literal P parsed =
     (case Number P (opt_chain (opt_chain (Some parsed) ''goal'') ''targetMinutes'') of
        Inl e \<Rightarrow> Inl e
      | Inr n \<Rightarrow>
          Inr \<lparr>records = (case opt_chain (Some parsed) ''records'' of Some (JArr xs) \<Rightarrow> xs | _ \<Rightarrow> []),
               goal = \<lparr>mode = ''weekly'',
                       targetMinutes = (if num_gt n (Fin 0) then n else Fin 300)\<rparr>\<rparr>)"
proof (cases "Number P (opt_chain (opt_chain (Some parsed) ''goal'') ''targetMinutes'')")
  case (Inl e)
  with assms show ?thesis
    by (simp add: loadData_literal_def get_prop_opt_chain Let_def)
next
  case (Inr n)
  show ?thesis
  proof (cases "num_gt n (Fin 0)")
    case True
    from get_member_opt_chain [OF Inr True]
    have "get_member (opt_chain (Some parsed) ''goal'') ''targetMinutes''
            = Inr (opt_chain (opt_chain (Some parsed) ''goal'') ''targetMinutes'')" .
    with assms Inr True show ?thesis
      by (simp add: loadData_literal_def get_prop_opt_chain Let_def Array_isArray_def
          split: option.splits json.splits)
  next
    case False
    with assms Inr show ?thesis
      by (simp add: loadData_literal_def get_prop_opt_chain Let_def Array_isArray_def
          split: option.splits json.splits)
  qed
qed

lemma loadData_JSON_text:
  assumes "ls STORAGE_KEY = Some (JSON_text parsed)"
  shows "fst (loadData P ls) = (case loadData_literal P parsed of Inl e \<Rightarrow> defaultData | Inr d \<Rightarrow> d)"
  using assms by (simp add: loadData_def localStorage_getItem_def split: sum.splits)

text \<open>
  C3, at the input where the code departs from it. A stored \<open>targetMinutes\<close> of
  \<open>1e999\<close> parses to \<open>Infinity\<close>; \<open>Infinity > 0\<close> holds, and \<open>loadData\<close> returns
  \<open>Infinity\<close> as the target, not 300: the test in \<open>loadData\<close> is \<open>> 0\<close> alone, without
  the \<open>Number.isFinite\<close> that the save handler applies.
\<close>

theorem loadData_keeps_infinite_target:
  "fst (loadData P (ls(STORAGE_KEY \<mapsto> JSON_text
      (JObj [(''records'', JArr []),
             (''goal'', JObj [(''mode'', JStr ''weekly''), (''targetMinutes'', JNum PInf)])]))))
   = \<lparr>records = [], goal = \<lparr>mode = ''weekly'', targetMinutes = PInf\<rparr>\<rparr>"
  by (simp add: loadData_JSON_text loadData_literal_eq num_gt_def)

text \<open>
  C4, as the code has it. For a stored JSON text that is not \<open>null\<close>: when the stored
  \<open>targetMinutes\<close> converts to a number, the records returned are the stored array, or
  \<open>[]\<close> when the stored \<open>records\<close> is not an array, whatever the goal is; and the goal
  returned is the converted target when that is finite and greater than 0, and the
  default of 300 when it is not greater than 0, whatever the records are. When the
  conversion throws, the \<open>catch\<close> returns the whole default snapshot. \<open>loadData\<close>
  itself never throws: every throw inside it is a branch that ends in the defaults.
\<close>

theorem loadData_fields:
  assumes "ls STORAGE_KEY = Some (JSON_text parsed)" and "parsed \<noteq> JNull"
  shows "(\<forall>n. Number P (opt_chain (opt_chain (Some parsed) ''goal'') ''targetMinutes'') = Inr n \<longrightarrow>
            records (fst (loadData P ls))
              = (case opt_chain (Some parsed) ''records'' of Some (JArr xs) \<Rightarrow> xs | _ \<Rightarrow> [])
            \<and> (Number_isFinite n \<and> num_gt n (Fin 0) \<longrightarrow>
                 goal (fst (loadData P ls)) = \<lparr>mode = ''weekly'', targetMinutes = n\<rparr>)
            \<and> (\<not> num_gt n (Fin 0) \<longrightarrow>
                 goal (fst (loadData P ls)) = \<lparr>mode = ''weekly'', targetMinutes = Fin 300\<rparr>))
       \<and> (\<forall>e. Number P (opt_chain (opt_chain (Some parsed) ''goal'') ''targetMinutes'') = Inl e \<longrightarrow>
            fst (loadData P ls) = defaultData)"
  using assms by (simp add: loadData_JSON_text loadData_literal_eq)

text \<open>A stored text whose records are not an array and whose goal is 450 minutes.\<close>

theorem loadData_fields_witness:
  "(Map.empty(STORAGE_KEY \<mapsto> JSON_text
        (JObj [(''records'', JStr ''none''),
               (''goal'', JObj [(''mode'', JStr ''weekly''), (''targetMinutes'', JNum (Fin 450))])])))
      STORAGE_KEY
     = Some (JSON_text
        (JObj [(''records'', JStr ''none''),
               (''goal'', JObj [(''mode'', JStr ''weekly''), (''targetMinutes'', JNum (Fin 450))])]))
   \<and> JObj [(''records'', JStr ''none''),
            (''goal'', JObj [(''mode'', JStr ''weekly''), (''targetMinutes'', JNum (Fin 450))])] \<noteq> JNull
   \<and> Number example_platform (Some (JNum (Fin 450))) = Inr (Fin 450)
   \<and> Number_isFinite (Fin 450) \<and> num_gt (Fin 450) (Fin 0)
   \<and> records (fst (loadData example_platform (Map.empty(STORAGE_KEY \<mapsto> JSON_text
        (JObj [(''records'', JStr ''none''),
               (''goal'', JObj [(''mode'', JStr ''weekly''), (''targetMinutes'', JNum (Fin 450))])])))))
     = []
   \<and> goal (fst (loadData example_platform (Map.empty(STORAGE_KEY \<mapsto> JSON_text
        (JObj [(''records'', JStr ''none''),
               (''goal'', JObj [(''mode'', JStr ''weekly''), (''targetMinutes'', JNum (Fin 450))])])))))
     = \<lparr>mode = ''weekly'', targetMinutes = Fin 450\<rparr>"
  using loadData_fields [where P = example_platform
      and ls = "Map.empty(STORAGE_KEY \<mapsto> JSON_text
        (JObj [(''records'', JStr ''none''),
               (''goal'', JObj [(''mode'', JStr ''weekly''), (''targetMinutes'', JNum (Fin 450))])]))"
      and parsed = "JObj [(''records'', JStr ''none''),
               (''goal'', JObj [(''mode'', JStr ''weekly''), (''targetMinutes'', JNum (Fin 450))])]"]
  by (simp add: num_gt_def)

text \<open>
  C4 as stated fails: the stored records are a valid array of one record and the stored
  goal is invalid, its \<open>targetMinutes\<close> being an object with an own \<open>toString\<close>
  property; \<open>Number\<close> throws on it, and the records returned are not the stored ones.
\<close>

theorem loadData_throwing_goal_counterexample:
  "records (fst (loadData example_platform (Map.empty(STORAGE_KEY \<mapsto> JSON_text
      (JObj [(''records'', JArr [Record ''2024-03-10'' sugaku 30]),
             (''goal'', JObj [(''mode'', JStr ''weekly''),
                              (''targetMinutes'', JObj [(''toString'', JNum (Fin 1))])])])))))
   \<noteq> [Record ''2024-03-10'' sugaku 30]"
  by (simp add: loadData_JSON_text loadData_literal_eq defaultData_def)

section \<open>Saving the goal\<close>

text \<open>
  C7. When the text of the goal field is not a number or is a number that is 0 or less
  (the text \<open>0\<close> for one), the click shows the message asking for a number of 1 or
  more, no exception leaves the handler, and the storage, with the goal and the
  records in it, is what it was.
\<close>

theorem saveGoal_click_rejects:
  assumes "StringToNumber P input = NaN \<or> num_le (StringToNumber P input) (Fin 0)"
  shows "saveGoal_click P input now pg = (pg\<lparr>goalMessage := Enter_one_or_more\<rparr>, None)
         \<and> goalMessage (fst (saveGoal_click P input now pg)) = Enter_one_or_more
         \<and> snd (saveGoal_click P input now pg) = None
         \<and> storage (fst (saveGoal_click P input now pg)) = storage pg"
  using assms by (auto simp: saveGoal_click_def saveGoal_value_def)

text \<open>The example page with the text \<open>0\<close> in the goal field.\<close>

theorem saveGoal_click_rejects_witness:
  "(StringToNumber example_platform ''0'' = NaN \<or> num_le (StringToNumber example_platform ''0'') (Fin 0))
   \<and> saveGoal_click example_platform ''0'' 1710039600000 running_page
       = (running_page\<lparr>goalMessage := Enter_one_or_more\<rparr>, None)
   \<and> storage (fst (saveGoal_click example_platform ''0'' 1710039600000 running_page)) = initial_storage"
  using saveGoal_click_rejects [of example_platform "''0''" 1710039600000 running_page]
  by (simp add: example_platform_def digit_def num_le_def running_page_def)

text \<open>What an accepted value leaves in the storage and in the goal message.\<close>

lemma saveGoal_value_accepts:
  assumes "Number_isFinite v" and "\<not> num_le v (Fin 0)"
  shows "storage (fst (saveGoal_value P v now pg))
           = saveData (storage pg)
               ((fst (loadData P (storage pg)))\<lparr>goal := \<lparr>mode = ''weekly'', targetMinutes = Math_round v\<rparr>\<rparr>)
         \<and> goalMessage (fst (saveGoal_value P v now pg)) = Goal_saved (Math_round v)"
proof -
  obtain d where d: "loadData P (storage pg) = (d, storage pg)"
    using loadData_fst_snd by blast
  show ?thesis
    using assms d
    by (simp add: saveGoal_value_def Let_def updateProgressView_storage updateProgressView_controls)
qed

lemma Math_round_two_fifths: "Math_round (Fin (2 / 5)) = Fin 0"
proof -
  have "\<lfloor>(2 / 5 + 1 / 2 :: rat)\<rfloor> = 0"
    by (rule floor_unique) simp_all
  then show ?thesis by simp
qed

text \<open>From one half on, the saved target is a positive integer.\<close>

lemma saveGoal_value_persists_positive:
  assumes "1 / 2 \<le> q"
  shows "1 \<le> \<lfloor>q + 1 / 2\<rfloor>
         \<and> storage (fst (saveGoal_value P (Fin q) now pg))
           = saveData (storage pg)
               ((fst (loadData P (storage pg)))
                  \<lparr>goal := \<lparr>mode = ''weekly'', targetMinutes = Fin (of_int \<lfloor>q + 1 / 2\<rfloor>)\<rparr>\<rparr>)"
proof -
  have "1 \<le> \<lfloor>q + 1 / 2\<rfloor>"
    using assms by (simp add: le_floor_iff)
  moreover have "Number_isFinite (Fin q)" "\<not> num_le (Fin q) (Fin 0)"
    using assms by (simp_all add: num_le_def)
  ultimately show ?thesis
    using saveGoal_value_accepts [of "Fin q" P now pg] by simp
qed

text \<open>
  C2, at the input where the code departs from it. The value 0.4 is finite and greater
  than 0, so the handler accepts it; \<open>Math.round(0.4)\<close> is 0, and the goal that is
  saved has \<open>targetMinutes = 0\<close>.
\<close>

theorem saveGoal_value_persists_zero:
  "storage (fst (saveGoal_value P (Fin (2 / 5)) now pg)) STORAGE_KEY
     = Some (JSON_text
         (JObj [(''records'', JArr (map JSON_reparse (records (fst (loadData P (storage pg)))))),
                (''goal'', JObj [(''mode'', JStr ''weekly''), (''targetMinutes'', JNum (Fin 0))])]))
   \<and> goalMessage (fst (saveGoal_value P (Fin (2 / 5)) now pg)) = Goal_saved (Fin 0)"
  by (simp add: saveGoal_value_accepts num_le_def saveData_def localStorage_setItem_def
      JSON_stringify_def snapshot_json_def Math_round_two_fifths del: Math_round.simps)

text \<open>The same on the example page, whose storage holds the defaults and no records.\<close>

theorem saveGoal_value_persists_zero_witness:
  "storage (fst (saveGoal_value example_platform (Fin (2 / 5)) 1710039600000 running_page)) STORAGE_KEY
     = Some (JSON_text
         (JObj [(''records'', JArr []),
                (''goal'', JObj [(''mode'', JStr ''weekly''), (''targetMinutes'', JNum (Fin 0))])]))
   \<and> goalMessage (fst (saveGoal_value example_platform (Fin (2 / 5)) 1710039600000 running_page))
       = Goal_saved (Fin 0)"
  using saveGoal_value_persists_zero [of example_platform 1710039600000 running_page]
  by (simp add: running_page_def initial_storage_def loadData_def localStorage_getItem_def
      saveData_def localStorage_setItem_def JSON_stringify_def snapshot_json_def defaultData_def
      loadData_literal_def Array_isArray_def num_gt_def)

section \<open>The remaining minutes\<close>

lemma remaining_finite: "remaining (Fin t) (Fin w) = Fin (max 0 (t - w))"
  by (simp add: remaining_def num_sub_def)

lemma remaining_not_negative: "\<not> num_lt (remaining t w) (Fin 0)"
  by (cases t; cases w) (simp_all add: remaining_def num_sub_def)

text \<open>
  C9. On finite numbers \<open>remaining target total\<close> is \<open>max 0 (target - total)\<close>; on all
  numbers, the infinities and NaN included, it is never less than 0;
  \<open>remaining(300, 350) = 0\<close> and \<open>remaining(300, 100) = 200\<close>; and the number that a
  successful refresh of the progress screen shows as remaining is \<open>remaining\<close> of the
  loaded goal and the weekly total it shows.
\<close>

theorem remaining_max_zero:
  "remaining (Fin t) (Fin w) = Fin (max 0 (t - w))
   \<and> \<not> num_lt (remaining target wtotal) (Fin 0)
   \<and> remaining (Fin 300) (Fin 350) = Fin 0
   \<and> remaining (Fin 300) (Fin 100) = Fin 200
   \<and> (\<forall>v. progress (fst (updateProgressView P now pg)) = Some v
          \<and> snd (updateProgressView P now pg) = None \<longrightarrow>
          remainingMinutes v
            = remaining (targetMinutes (goal (fst (loadData P (storage pg))))) (weeklyTotal v))"
  apply (intro conjI)
      apply (simp add: remaining_finite)
     apply (rule remaining_not_negative)
    apply (simp add: remaining_def num_sub_def)
   apply (simp add: remaining_def num_sub_def)
  apply (auto simp: updateProgressView_def Let_def split: prod.splits sum.splits)
  done

text \<open>A refresh over one record of thirty minutes, against the default goal of 300.\<close>

theorem remaining_max_zero_witness:
  "progress (fst (updateProgressView example_platform 1710039600000
       (running_page\<lparr>storage := saveData Map.empty
           (defaultData\<lparr>records := [JObj [(''date'', JStr ''2024-03-10''), (''subject'', JStr sugaku),
                                        (''duration'', JNum (Fin 30))]]\<rparr>)\<rparr>)))
     = Some \<lparr>weeklyTotal = Fin 30, remainingMinutes = Fin 270,
             chart_values = [Some (TNum (Fin 0)), Some (TNum (Fin 30)), Some (TNum (Fin 0)),
                             Some (TNum (Fin 0)), Some (TNum (Fin 0))]\<rparr>
   \<and> snd (updateProgressView example_platform 1710039600000
       (running_page\<lparr>storage := saveData Map.empty
           (defaultData\<lparr>records := [JObj [(''date'', JStr ''2024-03-10''), (''subject'', JStr sugaku),
                                        (''duration'', JNum (Fin 30))]]\<rparr>)\<rparr>)) = None
   \<and> Fin 270 = remaining (Fin 300) (Fin 30)"
  using remaining_max_zero [of 300 30 "Fin 300" "Fin 30" example_platform 1710039600000
      "running_page\<lparr>storage := saveData Map.empty
           (defaultData\<lparr>records := [JObj [(''date'', JStr ''2024-03-10''), (''subject'', JStr sugaku),
                                        (''duration'', JNum (Fin 30))]]\<rparr>)\<rparr>"]
  apply (simp add: updateProgressView_def loadData_def localStorage_getItem_def saveData_def localStorage_setItem_def
      JSON_stringify_def snapshot_json_def defaultData_def loadData_literal_def Array_isArray_def
      num_gt_def STORAGE_KEY_def running_page_def)
  apply (simp add: filterLast7Days_def in_last7Days_def Date_parse_def digit_def days_in_month_def is_leap_def
      window_start_def setHours0_def setDate_getDate_plus_def UTC_def LocalTime_def Day_def msPerDay_def
      days_from_civil_def example_platform_def date_ge_def date_le_def)
  apply (simp add: duration_or0_def num_or0_def num_truthy_def calcSubjectTotals_def add_record_def SUBJECTS_def
       sugaku_def kokugo_def eigo_def rika_def shakai_def remaining_def num_sub_def)
  done

section \<open>The 7-day filter\<close>

lemma Day_ge_iff: "(d * msPerDay \<le> t) = (d \<le> Day t)"
proof
  assume "d * msPerDay \<le> t"
  then have "(d * msPerDay) div msPerDay \<le> t div msPerDay"
    by (rule zdiv_mono1) (simp add: msPerDay_def)
  then show "d \<le> Day t"
    by (simp add: Day_def msPerDay_def)
next
  assume "d \<le> Day t"
  then have "d * msPerDay \<le> Day t * msPerDay"
    by (simp add: msPerDay_def)
  also have "\<dots> \<le> t"
    by (simp add: Day_def msPerDay_def)
  finally show "d * msPerDay \<le> t" .
qed

text \<open>With a steady offset the window starts at local midnight, six times 24 hours back.\<close>

lemma steady_window:
  assumes "steady_offset P c now"
  shows "LocalTime P now = now + c"
    and "local_midnight P now = Day (now + c) * msPerDay - c"
    and "window_start P now = (Day (now + c) - 6) * msPerDay - c"
proof -
  from assms have h1: "LocalTZA_utc P now = c"
    and h2: "LocalTZA_local P (Day (now + c) * msPerDay) = c"
    and h3: "LocalTZA_utc P (Day (now + c) * msPerDay - c) = c"
    and h4: "LocalTZA_local P ((Day (now + c) - 6) * msPerDay) = c"
    by (simp_all add: steady_offset_def)
  show lt: "LocalTime P now = now + c"
    by (simp add: LocalTime_def h1)
  show lm: "local_midnight P now = Day (now + c) * msPerDay - c"
    by (simp add: local_midnight_def UTC_def lt h2)
  have m: "setHours0 P now = Day (now + c) * msPerDay - c"
    by (simp add: setHours0_def UTC_def lt h2)
  have "LocalTime P (setHours0 P now) = Day (now + c) * msPerDay"
    by (simp add: m LocalTime_def h3)
  then have "LocalTime P (setHours0 P now) + (- 6) * msPerDay = (Day (now + c) - 6) * msPerDay"
    by (simp add: algebra_simps)
  then show "window_start P now = (Day (now + c) - 6) * msPerDay - c"
    by (simp add: window_start_def setDate_getDate_plus_def UTC_def h4)
qed

lemma in_last7Days_Record:
  assumes "is_Record r" and "window_start P now = local_midnight P now - 6 * msPerDay"
  shows "in_last7Days P now r =
           Inr (case date_as_local_midnight P r of
                  None \<Rightarrow> False
                | Some t \<Rightarrow> local_midnight P now - 6 * msPerDay \<le> t \<and> t \<le> now)"
  using assms
  by (cases r)
     (auto simp: in_last7Days_def date_as_local_midnight_def date_ge_def date_le_def
       split: option.splits json.splits)

lemma Array_filter_total:
  assumes "\<forall>x \<in> set xs. f x = Inr (p x)"
  shows "Array_filter f xs = Inr (filter p xs)"
  using assms by (induction xs) simp_all

lemma filter_spec:
  assumes "\<forall>r \<in> set recs. is_Record r" and "steady_offset P c now"
  shows "filterLast7Days P now recs = Inr (last7Days_spec P now recs)"
proof -
  have w: "window_start P now = local_midnight P now - 6 * msPerDay"
    by (simp add: steady_window [OF assms(2)] algebra_simps)
  show ?thesis
    unfolding filterLast7Days_def last7Days_spec_def
    by (rule Array_filter_total) (simp add: assms(1) in_last7Days_Record [OF _ w])
qed

lemma iso_midnight:
  assumes "iso_date s = Some (y, m, d)"
  shows "date_as_local_midnight P (Record s sj n) = Some (UTC P (days_from_civil y m d * msPerDay))"
proof -
  obtain y1 y2 y3 y4 s1 m1 m2 s2 d1 d2 where s: "s = [y1, y2, y3, y4, s1, m1, m2, s2, d1, d2]"
    using assms by (cases s rule: iso_date.cases) simp_all
  show ?thesis
    using assms unfolding s
    by (simp add: date_as_local_midnight_def Record_def Date_parse_def)
qed

lemma in_window_iff_days:
  assumes "iso_date s = Some (y, m, d)" and "steady_offset P c now"
    and "offset_on P c (days_from_civil y m d)"
  shows "(case date_as_local_midnight P (Record s sj n) of
            None \<Rightarrow> False
          | Some t \<Rightarrow> local_midnight P now - 6 * msPerDay \<le> t \<and> t \<le> now)
         = (Day (LocalTime P now) - 6 \<le> days_from_civil y m d
            \<and> days_from_civil y m d \<le> Day (LocalTime P now))"
proof -
  have u: "UTC P (days_from_civil y m d * msPerDay) = days_from_civil y m d * msPerDay - c"
    using assms(3) by (simp add: UTC_def offset_on_def)
  have a: "(local_midnight P now - 6 * msPerDay \<le> days_from_civil y m d * msPerDay - c)
           = (Day (LocalTime P now) - 6 \<le> days_from_civil y m d)"
    by (simp add: steady_window [OF assms(2)] msPerDay_def) arith
  have b: "(days_from_civil y m d * msPerDay - c \<le> now)
           = (days_from_civil y m d \<le> Day (LocalTime P now))"
    using Day_ge_iff [of "days_from_civil y m d" "now + c"]
    by (simp add: steady_window [OF assms(2)]) linarith
  show ?thesis
    using a b by (simp add: iso_midnight [OF assms(1)] u)
qed

lemma is_Record_Record: "is_Record (Record s sj n)"
  by (simp add: Record_def)

lemma filter_one_iso:
  assumes "iso_date s = Some (y, m, d)" and "steady_offset P c now"
    and "offset_on P c (days_from_civil y m d)"
  shows "filterLast7Days P now [Record s sj n] =
           Inr (if Day (LocalTime P now) - 6 \<le> days_from_civil y m d
                   \<and> days_from_civil y m d \<le> Day (LocalTime P now)
                then [Record s sj n] else [])"
  using in_window_iff_days [OF assms, where sj = sj and n = n]
  by (simp add: filter_spec [OF _ assms(2)] is_Record_Record last7Days_spec_def)

lemma iso_examples:
  "iso_date ''2024-03-02'' = Some (2024, 3, 2)"
  "iso_date ''2024-03-03'' = Some (2024, 3, 3)"
  "iso_date ''2024-03-04'' = Some (2024, 3, 4)"
  "iso_date ''2024-03-10'' = Some (2024, 3, 10)"
  "iso_date ''2024-03-11'' = Some (2024, 3, 11)"
  by (simp_all add: digit_def days_in_month_def is_leap_def)

lemma day_examples:
  "days_from_civil 2024 3 2 = 19784"
  "days_from_civil 2024 3 3 = 19785"
  "days_from_civil 2024 3 4 = 19786"
  "days_from_civil 2024 3 10 = 19792"
  "days_from_civil 2024 3 11 = 19793"
  by (simp_all add: days_from_civil_def)

text \<open>
  C6, as the code has it, in a zone whose offset is steady around the window: the same
  at now, at the local midnight of today and at the local midnight six days before.
  On records of the data model \<open>filterLast7Days\<close> keeps exactly those whose date, read
  as local midnight, lies between the local midnight of today minus six days and now,
  both ends included. For a record with a calendar date, read with that same offset,
  that is: its day is one of the seven days that end today. With now on 2024-03-10, and
  the same offset on the three dates, a record dated 2024-03-04 is kept, and records
  dated 2024-03-03 and 2024-03-02 are not.
\<close>

theorem filterLast7Days_window:
  assumes "list_all is_Record recs" and "iso_date s = Some (y, m, d)"
    and "steady_offset P c now"
  shows "filterLast7Days P now recs = Inr (last7Days_spec P now recs)
         \<and> (offset_on P c (days_from_civil y m d) \<longrightarrow>
             filterLast7Days P now [Record s sj n] =
               Inr (if Day (LocalTime P now) - 6 \<le> days_from_civil y m d
                       \<and> days_from_civil y m d \<le> Day (LocalTime P now)
                    then [Record s sj n] else []))
         \<and> (Day (LocalTime P now) = days_from_civil 2024 3 10
              \<and> offset_on P c (days_from_civil 2024 3 3)
              \<and> offset_on P c (days_from_civil 2024 3 2) \<longrightarrow>
               filterLast7Days P now [Record ''2024-03-04'' sj n] = Inr [Record ''2024-03-04'' sj n]
               \<and> filterLast7Days P now [Record ''2024-03-03'' sj n] = Inr []
               \<and> filterLast7Days P now [Record ''2024-03-02'' sj n] = Inr [])"
proof (intro conjI impI)
  show "filterLast7Days P now recs = Inr (last7Days_spec P now recs)"
    using assms(1,3) by (simp add: filter_spec list_all_iff)
next
  assume "offset_on P c (days_from_civil y m d)"
  with assms(2,3)
  show "filterLast7Days P now [Record s sj n] =
                 Inr (if Day (LocalTime P now) - 6 \<le> days_from_civil y m d
                         \<and> days_from_civil y m d \<le> Day (LocalTime P now)
                      then [Record s sj n] else [])"
    by (rule filter_one_iso)
next
  assume h: "Day (LocalTime P now) = days_from_civil 2024 3 10
              \<and> offset_on P c (days_from_civil 2024 3 3)
              \<and> offset_on P c (days_from_civil 2024 3 2)"
  then have "Day (now + c) = 19792"
    by (simp add: steady_window [OF assms(3)] day_examples)
  with assms(3) have "offset_on P c (days_from_civil 2024 3 4)"
    by (simp add: steady_offset_def offset_on_def day_examples)
  with h show "filterLast7Days P now [Record ''2024-03-04'' sj n] = Inr [Record ''2024-03-04'' sj n]"
    by (simp add: filter_one_iso [OF iso_examples(3) assms(3)] day_examples)
next
  assume h: "Day (LocalTime P now) = days_from_civil 2024 3 10
              \<and> offset_on P c (days_from_civil 2024 3 3)
              \<and> offset_on P c (days_from_civil 2024 3 2)"
  then show "filterLast7Days P now [Record ''2024-03-03'' sj n] = Inr []"
    by (simp add: filter_one_iso [OF iso_examples(2) assms(3)] day_examples)
next
  assume h: "Day (LocalTime P now) = days_from_civil 2024 3 10
              \<and> offset_on P c (days_from_civil 2024 3 3)
              \<and> offset_on P c (days_from_civil 2024 3 2)"
  then show "filterLast7Days P now [Record ''2024-03-02'' sj n] = Inr []"
    by (simp add: filter_one_iso [OF iso_examples(1) assms(3)] day_examples)
qed

lemma example_steady: "steady_offset example_platform 32400000 now"
  by (simp add: steady_offset_def example_platform_def)

lemma example_offset_on: "offset_on example_platform 32400000 day"
  by (simp add: offset_on_def example_platform_def)

lemma example_now: "Day (LocalTime example_platform 1710039600000) = days_from_civil 2024 3 10"
  by (simp add: Day_def LocalTime_def example_platform_def msPerDay_def day_examples)

text \<open>Noon of 2024-03-10 in Japan, and records of the days around the window.\<close>

theorem filterLast7Days_window_witness:
  "list_all is_Record [Record ''2024-03-10'' sugaku 30, Record ''2024-03-03'' eigo 45]
   \<and> iso_date ''2024-03-10'' = Some (2024, 3, 10)
   \<and> steady_offset example_platform 32400000 1710039600000
   \<and> offset_on example_platform 32400000 (days_from_civil 2024 3 10)
   \<and> offset_on example_platform 32400000 (days_from_civil 2024 3 3)
   \<and> offset_on example_platform 32400000 (days_from_civil 2024 3 2)
   \<and> Day (LocalTime example_platform 1710039600000) = days_from_civil 2024 3 10
   \<and> filterLast7Days example_platform 1710039600000
         [Record ''2024-03-10'' sugaku 30, Record ''2024-03-03'' eigo 45]
       = Inr (last7Days_spec example_platform 1710039600000
         [Record ''2024-03-10'' sugaku 30, Record ''2024-03-03'' eigo 45])
   \<and> filterLast7Days example_platform 1710039600000 [Record ''2024-03-10'' sugaku 30]
       = Inr [Record ''2024-03-10'' sugaku 30]
   \<and> filterLast7Days example_platform 1710039600000 [Record ''2024-03-04'' sugaku 30]
       = Inr [Record ''2024-03-04'' sugaku 30]
   \<and> filterLast7Days example_platform 1710039600000 [Record ''2024-03-03'' sugaku 30] = Inr []
   \<and> filterLast7Days example_platform 1710039600000 [Record ''2024-03-02'' sugaku 30] = Inr []"
  using filterLast7Days_window [where recs = "[Record ''2024-03-10'' sugaku 30, Record ''2024-03-03'' eigo 45]"
      and s = "''2024-03-10''" and y = 2024 and m = 3 and d = 10 and c = 32400000
      and P = example_platform and now = 1710039600000 and sj = sugaku and n = 30]
  by (simp add: is_Record_Record example_now example_steady example_offset_on day_examples
      digit_def days_in_month_def is_leap_def)

text \<open>
  C6 as stated fails in its example: at noon of 2024-03-10 in Japan a record dated
  2024-03-03 is not kept.
\<close>

theorem filterLast7Days_0303_counterexample:
  "Day (LocalTime example_platform 1710039600000) = days_from_civil 2024 3 10
   \<and> filterLast7Days example_platform 1710039600000 [Record ''2024-03-03'' sugaku 30]
       \<noteq> Inr [Record ''2024-03-03'' sugaku 30]"
  by (simp add: filter_one_iso [OF iso_examples(2) example_steady example_offset_on]
      example_now day_examples)

text \<open>
  Where the clock changes inside the window the filter can differ. At noon of
  2024-03-10 in Cuba local midnight of that day is skipped, \<open>setHours(0, 0, 0, 0)\<close>
  lands on 01:00, the window starts at 01:00 of 2024-03-04, and the record dated
  2024-03-04, read as 00:00 of that day, is not kept.
\<close>

lemma filterLast7Days_clock_change:
  "Day (LocalTime clock_change_platform 1710086400000) = days_from_civil 2024 3 10
   \<and> window_start clock_change_platform 1710086400000 = 1709532000000
   \<and> date_as_local_midnight clock_change_platform (Record ''2024-03-04'' sugaku 30)
       = Some 1709528400000
   \<and> filterLast7Days clock_change_platform 1710086400000 [Record ''2024-03-04'' sugaku 30] = Inr []"
proof -
  have d: "Day (LocalTime clock_change_platform 1710086400000) = days_from_civil 2024 3 10"
    by (simp add: Day_def LocalTime_def clock_change_platform_def msPerDay_def day_examples)
  have w: "window_start clock_change_platform 1710086400000 = 1709532000000"
    by (simp add: window_start_def setDate_getDate_plus_def setHours0_def UTC_def LocalTime_def
        Day_def msPerDay_def clock_change_platform_def)
  have r: "date_as_local_midnight clock_change_platform (Record ''2024-03-04'' sugaku 30)
       = Some 1709528400000"
    by (simp add: iso_midnight [OF iso_examples(3)] day_examples UTC_def msPerDay_def
        clock_change_platform_def)
  have "in_last7Days clock_change_platform 1710086400000 (Record ''2024-03-04'' sugaku 30) = Inr False"
    using r w
    by (simp add: in_last7Days_def date_as_local_midnight_def Record_def date_ge_def date_le_def)
  then have "filterLast7Days clock_change_platform 1710086400000 [Record ''2024-03-04'' sugaku 30] = Inr []"
    by (simp add: filterLast7Days_def)
  with d w r show ?thesis by simp
qed

section \<open>The totals by subject\<close>

lemma distinct_SUBJECTS: "distinct SUBJECTS"
  by (simp add: SUBJECTS_def kokugo_def sugaku_def eigo_def rika_def shakai_def)

lemma map_of_buckets:
  "map_of (map (\<lambda>s. (s, TNum (f s))) xs) k = (if k \<in> set xs then Some (TNum (f k)) else None)"
  by (induction xs) auto

lemma put_buckets:
  assumes "distinct xs" and "k \<in> set xs"
  shows "put k (TNum v) (map (\<lambda>s. (s, TNum (f s))) xs) = map (\<lambda>s. (s, TNum ((f(k := v)) s))) xs"
  using assms by (induction xs) auto

lemma add_record_bucket:
  assumes "is_Record r" and "subject_of r = Some k" and "k \<notin> set Object_prototype_names"
    and "distinct xs"
  shows "add_record P (map (\<lambda>s. (s, TNum (f s))) xs) r =
           Inr (map (\<lambda>s. (s, TNum (if s = k then num_add (f s) (num_or0 (duration_of r)) else f s))) xs)"
proof -
  obtain kvs d n where r: "r = JObj kvs" and
    kv: "map_of kvs ''date'' = Some (JStr d)" "map_of kvs ''subject'' = Some (JStr k)"
        "map_of kvs ''duration'' = Some (JNum n)"
    using assms(1,2)
    by (cases r) (auto simp: subject_of_def split: option.splits json.splits)
  have dur: "duration_or0 P r = Inr (num_or0 (duration_of r))"
    by (simp add: r kv duration_or0_def duration_of_def)
  show ?thesis
  proof (cases "k \<in> set xs")
    case True
    then show ?thesis
      using assms(3,4) dur
      by (simp add: add_record_def r kv map_of_buckets put_buckets fun_upd_def)
  next
    case False
    then have "\<And>s. s \<in> set xs \<Longrightarrow> s \<noteq> k" by auto
    with False show ?thesis
      using assms(3)
      by (simp add: add_record_def r kv map_of_buckets cong: map_cong)
  qed
qed

lemma forEach_add_buckets:
  assumes "list_all (\<lambda>r. is_Record r \<and> (\<forall>k. subject_of r = Some k \<longrightarrow> k \<notin> set Object_prototype_names)) recs"
    and "distinct xs"
  shows "forEach_add P (map (\<lambda>s. (s, TNum (f s))) xs) recs =
           Inr (map (\<lambda>s. (s, TNum (foldl num_add (f s)
                  (map (\<lambda>r. num_or0 (duration_of r)) (filter (\<lambda>r. subject_of r = Some s) recs))))) xs)"
  using assms(1)
proof (induction recs arbitrary: f)
  case Nil
  then show ?case by simp
next
  case (Cons r recs)
  then have rr: "is_Record r" by simp
  then obtain k where k: "subject_of r = Some k"
    by (cases r) (auto simp: subject_of_def split: option.splits json.splits)
  with Cons.prems have nk: "k \<notin> set Object_prototype_names" by simp
  from Cons.prems have rest: "list_all (\<lambda>r. is_Record r \<and> (\<forall>k. subject_of r = Some k \<longrightarrow> k \<notin> set Object_prototype_names)) recs"
    by simp
  show ?case
    by (simp add: add_record_bucket [OF rr k nk assms(2)] Cons.IH [OF rest] k)
qed

text \<open>
  On records of the data model none of whose subjects is a name that objects inherit,
  \<open>calcSubjectTotals\<close> returns the specification's totals.
\<close>

lemma calcSubjectTotals_spec:
  assumes "list_all (\<lambda>r. is_Record r \<and> (\<forall>k. subject_of r = Some k \<longrightarrow> k \<notin> set Object_prototype_names)) recs"
  shows "calcSubjectTotals P recs = Inr (subjectTotals_spec recs)"
  using forEach_add_buckets [OF assms distinct_SUBJECTS, of P "\<lambda>s. Fin 0"]
  by (simp add: calcSubjectTotals_def subjectTotals_spec_def subject_sum_def)

text \<open>
  C8, on its own example and at an input where the code departs from it. Two records of
  mathematics and one of an unknown subject give 50 for mathematics and 0 for the
  others. A record whose subject is \<open>toString\<close> is not ignored: the test
  \<open>totals[record.subject] !== undefined\<close> finds the method that every object inherits,
  and the result has a sixth property, \<open>toString\<close>, holding a string.
\<close>

theorem calcSubjectTotals_inherited_name:
  "calcSubjectTotals P [Record ''2024-03-10'' sugaku 30, Record ''2024-03-10'' sugaku 20,
                        Record ''2024-03-10'' ''unknown'' 99]
     = Inr [(kokugo, TNum (Fin 0)), (sugaku, TNum (Fin 50)), (eigo, TNum (Fin 0)),
            (rika, TNum (Fin 0)), (shakai, TNum (Fin 0))]
   \<and> calcSubjectTotals P [Record ''2024-03-10'' ''toString'' 5]
     = Inr [(kokugo, TNum (Fin 0)), (sugaku, TNum (Fin 0)), (eigo, TNum (Fin 0)),
            (rika, TNum (Fin 0)), (shakai, TNum (Fin 0)), (''toString'', TText)]"
  by (simp add: calcSubjectTotals_def add_record_def duration_or0_def num_or0_def num_truthy_def
      Record_def SUBJECTS_def Object_prototype_names_def
      sugaku_def kokugo_def eigo_def rika_def shakai_def)

end
